theory Spec2Isabelle
  imports Complex_Main "HOL-Library.Code_Target_Nat"
begin

section \<open>JavaScript strings\<close>

text \<open>
  A JavaScript string is a sequence of UTF-16 code units. The regular expressions of
  \<^verbatim>\<open>server/openai-agent.ts\<close> carry no \<^verbatim>\<open>u\<close> flag, so they work on
  code units, and \<^verbatim>\<open>\s\<close> contains code units above 255. A code unit is a natural
  number here; \<open>S\<close> turns an ASCII literal of the source into its code units.
\<close>

type_synonym cu = nat
type_synonym jsstring = "cu list"

definition S :: "string \<Rightarrow> jsstring" where
  "S cs = map of_char cs"

text \<open>\<^verbatim>\<open>String.prototype.includes\<close>: the needle occurs as a contiguous run.\<close>

fun startsWith :: "jsstring \<Rightarrow> jsstring \<Rightarrow> bool" where
  "startsWith s [] = True"
| "startsWith [] (n # ns) = False"
| "startsWith (c # cs) (n # ns) = (c = n \<and> startsWith cs ns)"

fun includes_str :: "jsstring \<Rightarrow> jsstring \<Rightarrow> bool" where
  "includes_str [] needle = startsWith [] needle"
| "includes_str (c # cs) needle = (startsWith (c # cs) needle \<or> includes_str cs needle)"

text \<open>
  \<^verbatim>\<open>String.prototype.toLowerCase\<close> follows the Unicode case tables (the Kelvin sign
  U+212A becomes an ASCII \<^verbatim>\<open>k\<close>, for one). It is a parameter of the guardrails
  below. What is used of it, and only for the concrete runs, is that it lowers an ASCII
  string letter by letter, as \<open>ascii_toLowerCase\<close> does.
\<close>

definition ascii_lower :: "cu \<Rightarrow> cu" where
  "ascii_lower c = (if 65 \<le> c \<and> c \<le> 90 then c + 32 else c)"

definition ascii_toLowerCase :: "jsstring \<Rightarrow> jsstring" where
  "ascii_toLowerCase s = map ascii_lower s"

definition lowers_ascii :: "(jsstring \<Rightarrow> jsstring) \<Rightarrow> bool" where
  "lowers_ascii lower = (\<forall>s. list_all (\<lambda>c. c < 128) s \<longrightarrow> lower s = ascii_toLowerCase s)"

section \<open>Regular expressions\<close>

text \<open>
  The fragment of the JavaScript pattern language that the four PII patterns use:
  character classes, \<^verbatim>\<open>\b\<close>, sequence, alternation and counted repetition
  (\<^verbatim>\<open>?\<close> is \<^verbatim>\<open>{0,1}\<close>, \<^verbatim>\<open>+\<close> is \<^verbatim>\<open>{1,}\<close>). A class is a list
  of inclusive code unit ranges.
\<close>

datatype regex =
    Empty
  | Class "(cu \<times> cu) list"
  | WordBoundary
  | Seq regex regex
  | Alt regex regex
  | Repeat nat "nat option" regex

record regexp =
  pattern :: regex
  ignoreCase :: bool

definition char_range :: "char \<Rightarrow> char \<Rightarrow> cu \<times> cu" where
  "char_range a b = (of_char a, of_char b)"

definition one_char :: "char \<Rightarrow> cu \<times> cu" where
  "one_char a = (of_char a, of_char a)"

definition digit :: regex where
  "digit = Class [char_range CHR ''0'' CHR ''9'']"

definition word_class :: "(cu \<times> cu) list" where
  "word_class = [char_range CHR ''A'' CHR ''Z'', char_range CHR ''a'' CHR ''z'', char_range CHR ''0'' CHR ''9'',
     one_char CHR ''_'']"

text \<open>
  \<^verbatim>\<open>\s\<close>: tab to carriage return, space, no-break space, U+1680, U+2000 to U+200A,
  U+2028, U+2029, U+202F, U+205F, U+3000 and U+FEFF.
\<close>

definition space_class :: "(cu \<times> cu) list" where
  "space_class = [(9, 13), (32, 32), (160, 160), (5760, 5760), (8192, 8202), (8232, 8233),
     (8239, 8239), (8287, 8287), (12288, 12288), (65279, 65279)]"

fun Concat :: "regex list \<Rightarrow> regex" where
  "Concat [] = Empty"
| "Concat [r] = r"
| "Concat (r # rs) = Seq r (Concat rs)"

fun Alts :: "regex list \<Rightarrow> regex" where
  "Alts [] = Class []"
| "Alts [r] = r"
| "Alts (r # rs) = Alt r (Alts rs)"

definition Lit :: "string \<Rightarrow> regex" where
  "Lit cs = Concat (map (\<lambda>c. Class [one_char c]) cs)"

definition Exactly :: "nat \<Rightarrow> regex \<Rightarrow> regex" where
  "Exactly n r = Repeat n (Some n) r"

definition Optional :: "regex \<Rightarrow> regex" where
  "Optional r = Repeat 0 (Some 1) r"

definition OneOrMore :: "regex \<Rightarrow> regex" where
  "OneOrMore r = Repeat 1 None r"

subsection \<open>Matching\<close>

definition in_ranges :: "(cu \<times> cu) list \<Rightarrow> cu \<Rightarrow> bool" where
  "in_ranges rs c = list_ex (\<lambda>(lo, hi). lo \<le> c \<and> c \<le> hi) rs"

text \<open>
  With the \<^verbatim>\<open>i\<close> flag and no \<^verbatim>\<open>u\<close> flag both sides are canonicalised by
  upper-casing, and a code unit of 128 or more is never mapped to one below 128. The
  classes of the one pattern with the flag hold ASCII letters, digits, the underscore and
  white space, none of which is the upper-case form of a code unit outside ASCII, so the
  canonical form is written out for the ASCII letters.
\<close>

definition swap_case :: "cu \<Rightarrow> cu" where
  "swap_case c = (if 65 \<le> c \<and> c \<le> 90 then c + 32 else if 97 \<le> c \<and> c \<le> 122 then c - 32 else c)"

definition class_matches :: "bool \<Rightarrow> (cu \<times> cu) list \<Rightarrow> cu \<Rightarrow> bool" where
  "class_matches ic rs c = (in_ranges rs c \<or> (ic \<and> in_ranges rs (swap_case c)))"

definition is_word_char :: "cu option \<Rightarrow> bool" where
  "is_word_char x = (case x of None \<Rightarrow> False | Some c \<Rightarrow> in_ranges word_class c)"

text \<open>
  A position in the input: the code unit before it, if any, and the input from it on.
  \<open>match\<close> gives the positions at which a match of the pattern started here can end.
\<close>

type_synonym position = "cu option \<times> jsstring"

definition next_unit :: "jsstring \<Rightarrow> cu option" where
  "next_unit cs = (case cs of [] \<Rightarrow> None | c # _ \<Rightarrow> Some c)"

fun iterate :: "nat \<Rightarrow> (position \<Rightarrow> position list) \<Rightarrow> position \<Rightarrow> position list" where
  "iterate 0 f k = [k]"
| "iterate (Suc n) f k = concat (map (iterate n f) (f k))"

text \<open>
  An iteration past the minimum that consumes nothing is dropped by JavaScript, so an
  unbounded repetition runs at most the minimum plus the length of the rest many times.
\<close>

definition repeat :: "nat \<Rightarrow> nat option \<Rightarrow> (position \<Rightarrow> position list) \<Rightarrow> position \<Rightarrow> position list" where
  "repeat lo hi f k =
     concat (map (\<lambda>n. iterate n f k)
       [lo ..< Suc (case hi of Some h \<Rightarrow> h | None \<Rightarrow> lo + length (snd k))])"

primrec match :: "bool \<Rightarrow> regex \<Rightarrow> position \<Rightarrow> position list" where
  "match ic Empty k = [k]"
| "match ic (Class rs) k =
     (case snd k of [] \<Rightarrow> []
      | c # cs \<Rightarrow> if class_matches ic rs c then [(Some c, cs)] else [])"
| "match ic WordBoundary k =
     (if is_word_char (fst k) \<noteq> is_word_char (next_unit (snd k)) then [k] else [])"
| "match ic (Seq r1 r2) k = concat (map (match ic r2) (match ic r1 k))"
| "match ic (Alt r1 r2) k = match ic r1 k @ match ic r2 k"
| "match ic (Repeat lo hi r) k = repeat lo hi (match ic r) k"

text \<open>\<^verbatim>\<open>RegExp.prototype.test\<close> without the \<^verbatim>\<open>g\<close> flag: a match starts somewhere.\<close>

fun search :: "regexp \<Rightarrow> cu option \<Rightarrow> jsstring \<Rightarrow> bool" where
  "search re p [] = (match (ignoreCase re) (pattern re) (p, []) \<noteq> [])"
| "search re p (c # cs) =
     (match (ignoreCase re) (pattern re) (p, c # cs) \<noteq> [] \<or> search re (Some c) cs)"

definition test :: "regexp \<Rightarrow> jsstring \<Rightarrow> bool" where
  "test re s = search re None s"

section \<open>Pattern guardrails\<close>

record guardrail_check =
  passed :: bool
  reason :: "jsstring option"

text \<open>\<^verbatim>\<open>/\b\d{3}[-.]?\d{2}[-.]?\d{4}\b/\<close>\<close>

definition ssn_pattern :: regexp where
  "ssn_pattern = \<lparr>pattern = Concat [WordBoundary, Exactly 3 digit,
      Optional (Class [one_char CHR ''-'', one_char CHR ''.'']), Exactly 2 digit,
      Optional (Class [one_char CHR ''-'', one_char CHR ''.'']), Exactly 4 digit, WordBoundary],
     ignoreCase = False\<rparr>"

text \<open>\<^verbatim>\<open>/\b\d{3}[-.]?\d{3}[-.]?\d{4}\b/\<close>\<close>

definition phone_pattern :: regexp where
  "phone_pattern = \<lparr>pattern = Concat [WordBoundary, Exactly 3 digit,
      Optional (Class [one_char CHR ''-'', one_char CHR ''.'']), Exactly 3 digit,
      Optional (Class [one_char CHR ''-'', one_char CHR ''.'']), Exactly 4 digit, WordBoundary],
     ignoreCase = False\<rparr>"

text \<open>\<^verbatim>\<open>/\b[a-zA-Z0-9._%+-]+@[a-zA-Z0-9.-]+\.[a-zA-Z]{2,}\b/\<close>\<close>

definition email_pattern :: regexp where
  "email_pattern = \<lparr>pattern = Concat [WordBoundary,
      OneOrMore (Class [char_range CHR ''a'' CHR ''z'', char_range CHR ''A'' CHR ''Z'',
        char_range CHR ''0'' CHR ''9'', one_char CHR ''.'', one_char CHR ''_'', one_char CHR ''%'',
        one_char CHR ''+'', one_char CHR ''-'']),
      Lit ''@'',
      OneOrMore (Class [char_range CHR ''a'' CHR ''z'', char_range CHR ''A'' CHR ''Z'',
        char_range CHR ''0'' CHR ''9'', one_char CHR ''.'', one_char CHR ''-'']),
      Lit ''.'',
      Repeat 2 None (Class [char_range CHR ''a'' CHR ''z'', char_range CHR ''A'' CHR ''Z'']),
      WordBoundary],
     ignoreCase = False\<rparr>"

text \<open>
  \<^verbatim>\<open>/\b\d{1,5}\s+\w+\s+(street|st|avenue|ave|road|rd|drive|dr|lane|ln|boulevard|blvd)\b/i\<close>
\<close>

definition address_pattern :: regexp where
  "address_pattern = \<lparr>pattern = Concat [WordBoundary, Repeat 1 (Some 5) digit,
      OneOrMore (Class space_class), OneOrMore (Class word_class),
      OneOrMore (Class space_class),
      Alts [Lit ''street'', Lit ''st'', Lit ''avenue'', Lit ''ave'', Lit ''road'', Lit ''rd'',
        Lit ''drive'', Lit ''dr'', Lit ''lane'', Lit ''ln'', Lit ''boulevard'', Lit ''blvd''],
      WordBoundary],
     ignoreCase = True\<rparr>"

definition input_pii_reason :: jsstring where
  "input_pii_reason = S ''Input contains potential PII (personal identifiable information). For your safety, please do not share personal information in chat.''"

definition input_scope_reason :: jsstring where
  "input_scope_reason = S ''Your message appears to contain content that falls outside the scope of daycare-related inquiries.''"

definition input_piiPatterns :: "regexp list" where
  "input_piiPatterns = [ssn_pattern, phone_pattern, email_pattern, address_pattern]"

definition injectionPatterns :: "jsstring list" where
  "injectionPatterns = map S
     [''ignore previous'', ''ignore your instructions'', ''ignore all previous'',
      ''disregard'', ''forget your rules'', ''pretend you are'', ''act as if you are not'',
      ''reveal your prompt'', ''show me your instructions'', ''what are your system'',
      ''override'', ''jailbreak'', ''do anything now'', ''developer mode'']"

definition checkInputGuardrails :: "(jsstring \<Rightarrow> jsstring) \<Rightarrow> jsstring \<Rightarrow> guardrail_check" where
  "checkInputGuardrails toLowerCase userMessage =
     (let lowerMsg = toLowerCase userMessage in
      if list_ex (\<lambda>pattern. test pattern userMessage) input_piiPatterns
      then \<lparr>passed = False, reason = Some input_pii_reason\<rparr>
      else if list_ex (\<lambda>pattern. includes_str lowerMsg pattern) injectionPatterns
      then \<lparr>passed = False, reason = Some input_scope_reason\<rparr>
      else \<lparr>passed = True, reason = None\<rparr>)"

definition output_pii_reason :: jsstring where
  "output_pii_reason = S ''Response contains potential PII data that violates COPPA/FERPA compliance.''"

definition output_piiPatterns :: "regexp list" where
  "output_piiPatterns = [ssn_pattern, phone_pattern, email_pattern]"

definition sensitiveKeywords :: "jsstring list" where
  "sensitiveKeywords = map S
     [''social security'', ''ssn'', ''date of birth'', ''home address'',
      ''medical record'', ''diagnosis'', ''prescription'', ''irs'',
      ''bank account'', ''credit card'', ''routing number'']"

text \<open>The loop over the keywords returns at the first keyword that triggers.\<close>

fun first_keyword :: "jsstring \<Rightarrow> jsstring list \<Rightarrow> jsstring option" where
  "first_keyword lowerResponse [] = None"
| "first_keyword lowerResponse (keyword # keywords) =
     (if includes_str lowerResponse keyword \<and> \<not> includes_str lowerResponse (S ''we do not'')
         \<and> \<not> includes_str lowerResponse (S ''never share'')
      then Some keyword else first_keyword lowerResponse keywords)"

definition checkOutputGuardrails :: "(jsstring \<Rightarrow> jsstring) \<Rightarrow> jsstring \<Rightarrow> guardrail_check" where
  \<open>checkOutputGuardrails toLowerCase response =
     (if list_ex (\<lambda>pattern. test pattern response) output_piiPatterns
      then \<lparr>passed = False, reason = Some output_pii_reason\<rparr>
      else (let lowerResponse = toLowerCase response in
        case first_keyword lowerResponse sensitiveKeywords of
          Some keyword \<Rightarrow> \<lparr>passed = False,
            reason = Some (S ''Response references sensitive information: "'' @ keyword @ S ''"'')\<rparr>
        | None \<Rightarrow> \<lparr>passed = True, reason = None\<rparr>))\<close>

subsection \<open>The patterns of the specification\<close>



definition word_bounded :: "regexp \<Rightarrow> regexp" where
  "word_bounded re = \<lparr>pattern = Concat [WordBoundary, pattern re, WordBoundary],
     ignoreCase = ignoreCase re\<rparr>"

section \<open>Numbers and JSON values\<close>

text \<open>
  A JavaScript number as far as \<^verbatim>\<open>Math.min\<close>, \<^verbatim>\<open>Math.max\<close> and truthiness see
  it: a finite value, an infinity (\<^verbatim>\<open>JSON.parse("1e999")\<close>) or \<^verbatim>\<open>NaN\<close>. Minus zero is
  \<open>Finite 0\<close>: both zeros are falsy, and no other operation of the source tells them apart.
\<close>

datatype jsnumber = NaN | NegInfinity | Finite rat | Infinity

fun num_le :: "jsnumber \<Rightarrow> jsnumber \<Rightarrow> bool" where
  "num_le NaN y = False"
| "num_le x NaN = False"
| "num_le NegInfinity y = True"
| "num_le (Finite a) (Finite b) = (a \<le> b)"
| "num_le x Infinity = True"
| "num_le x y = False"

definition Math_min :: "jsnumber \<Rightarrow> jsnumber \<Rightarrow> jsnumber" where
  "Math_min a b = (if a = NaN \<or> b = NaN then NaN else if num_le a b then a else b)"

definition Math_max :: "jsnumber \<Rightarrow> jsnumber \<Rightarrow> jsnumber" where
  "Math_max a b = (if a = NaN \<or> b = NaN then NaN else if num_le a b then b else a)"

datatype json =
    JNull
  | JBool bool
  | JNumber jsnumber
  | JString jsstring
  | JArray "json list"
  | JObject "(jsstring \<times> json) list"

datatype error = Error (message: jsstring)

text \<open>
  The pairs of a \<open>JObject\<close> are the properties of the parsed object, each key once.
  \<open>truthy\<close> is the operand test of \<^verbatim>\<open>||\<close>; an absent property (\<^verbatim>\<open>undefined\<close>)
  is \<open>None\<close>.
\<close>

fun truthy :: "json \<Rightarrow> bool" where
  "truthy JNull = False"
| "truthy (JBool b) = b"
| "truthy (JNumber n) = (n \<noteq> Finite 0 \<and> n \<noteq> NaN)"
| "truthy (JString s) = (s \<noteq> [])"
| "truthy (JArray xs) = True"
| "truthy (JObject kvs) = True"

definition or_else :: "json option \<Rightarrow> json \<Rightarrow> json" where
  "or_else v d = (case v of None \<Rightarrow> d | Some x \<Rightarrow> if truthy x then x else d)"

definition or_string :: "jsstring option \<Rightarrow> jsstring \<Rightarrow> jsstring" where
  "or_string v d = (case v of None \<Rightarrow> d | Some s \<Rightarrow> if s = [] then d else s)"

definition or_null :: "jsstring option \<Rightarrow> jsstring option" where
  "or_null v = (case v of None \<Rightarrow> None | Some s \<Rightarrow> if s = [] then None else Some s)"

text \<open>
  Reading a property: a \<^verbatim>\<open>TypeError\<close> on \<^verbatim>\<open>null\<close>, the own property of an
  object, and \<^verbatim>\<open>undefined\<close> on every other value (no primitive and no array has a
  property called \<^verbatim>\<open>score\<close> or \<^verbatim>\<open>feedback\<close>).
\<close>

fun get_property :: "json \<Rightarrow> jsstring \<Rightarrow> error + json option" where
  "get_property JNull key = Inl (Error (S ''Cannot read properties of null''))"
| "get_property (JObject kvs) key = Inr (map_of kvs key)"
| "get_property v key = Inr None"

section \<open>Collaborators\<close>

record document =
  doc_title :: jsstring
  doc_category :: jsstring
  doc_content :: jsstring

record prompt =
  prompt_name :: jsstring
  prompt_content :: jsstring

record message =
  msg_role :: jsstring
  msg_content :: jsstring

record chat_message =
  role :: jsstring
  content :: jsstring

record request =
  request_model :: jsstring
  messages :: "chat_message list"
  max_completion_tokens :: nat
  response_format :: "jsstring option"

record completion_usage =
  prompt_tokens :: int
  completion_tokens :: int
  total_tokens :: int

record choice =
  choice_message :: "jsstring option option"

text \<open>
  A choice holds its message, if any, and the message its content, if any:
  \<open>choice_message\<close> is \<open>None\<close> without a message, \<open>Some None\<close> for a message without
  content. \<open>choices\<close> is the array that the type of the SDK promises.
\<close>

record chat_completion =
  completion_id :: "jsstring option"
  completion_model :: "jsstring option"
  choices :: "choice list"
  usage :: "completion_usage option"

record insert_trace_log =
  conversationId :: "int option"
  traceId :: "jsstring option"
  model :: jsstring
  promptTokens :: int
  completionTokens :: int
  totalTokens :: int
  userMessage :: "jsstring option"
  assistantMessage :: "jsstring option"
  guardrailResult :: "jsstring option"
  evaluatorScore :: "jsnumber option"
  evaluatorFeedback :: "json option"
  blocked :: bool
  blockReason :: "jsstring option"
  responseTimeMs :: "int option"

text \<open>
  What a run meets outside the module: the runtime (\<^verbatim>\<open>toLowerCase\<close>,
  \<^verbatim>\<open>JSON.parse\<close>, the number coercion of a string, array or object, the clock at each
  of its readings), the storage layer and the completion endpoint. A call of a
  collaborator returns or throws.
\<close>

record world =
  String_toLowerCase :: "jsstring \<Rightarrow> jsstring"
  JSON_parse :: "jsstring \<Rightarrow> error + json"
  ToNumber :: "json \<Rightarrow> jsnumber"
  Date_now :: "nat \<Rightarrow> int"
  getActivePrompts :: "error + prompt list"
  getActiveDocuments :: "error + document list"
  getMessages :: "int \<Rightarrow> error + message list"
  createTraceLog :: "insert_trace_log \<Rightarrow> error + unit"
  chat_completions_create :: "request \<Rightarrow> error + chat_completion"

section \<open>Effects\<close>

text \<open>
  A run yields the calls it made on the collaborators, in order, and its outcome. The two
  events of the completion endpoint are told apart by call site: \<open>CompletionCall\<close> in
  \<^verbatim>\<open>processMessage\<close> and \<^verbatim>\<open>processEphemeralMessage\<close>, \<open>EvaluatorCall\<close> in
  \<^verbatim>\<open>runEvaluatorAgent\<close>.
\<close>

datatype event =
    GetActivePrompts
  | GetActiveDocuments
  | GetMessages int
  | CreateTraceLog insert_trace_log
  | CompletionCall request
  | EvaluatorCall request

type_synonym 'a io = "event list \<times> (error + 'a)"

definition ret :: "'a \<Rightarrow> 'a io" where
  "ret x = ([], Inr x)"

definition throw :: "error \<Rightarrow> 'a io" where
  "throw e = ([], Inl e)"

definition call :: "event \<Rightarrow> error + 'a \<Rightarrow> 'a io" where
  "call ev outcome = ([ev], outcome)"

definition bind :: "'a io \<Rightarrow> ('a \<Rightarrow> 'b io) \<Rightarrow> 'b io" where
  "bind m f = (case snd m of Inl e \<Rightarrow> (fst m, Inl e)
     | Inr x \<Rightarrow> (fst m @ fst (f x), snd (f x)))"

text \<open>
  The handler of \<open>try_catch\<close> gets the calls that the body made before it threw, next to
  the error: what the clock shows in the catch block depends on how often the body read it.
\<close>

definition try_catch :: "'a io \<Rightarrow> (event list \<Rightarrow> error \<Rightarrow> 'a io) \<Rightarrow> 'a io" where
  "try_catch m h = (case snd m of Inl e \<Rightarrow> (fst m @ fst (h (fst m) e), snd (h (fst m) e))
     | Inr x \<Rightarrow> (fst m, Inr x))"

fun is_createTraceLog :: "event \<Rightarrow> bool" where
  "is_createTraceLog (CreateTraceLog r) = True"
| "is_createTraceLog ev = False"


fun is_evaluator_call :: "event \<Rightarrow> bool" where
  "is_evaluator_call (EvaluatorCall req) = True"
| "is_evaluator_call ev = False"

fun trace_logs :: "event list \<Rightarrow> insert_trace_log list" where
  "trace_logs [] = []"
| "trace_logs (CreateTraceLog r # evs) = r # trace_logs evs"
| "trace_logs (ev # evs) = trace_logs evs"

text \<open>
  \<^verbatim>\<open>Date.now()\<close> is read once at the start of \<^verbatim>\<open>processMessage\<close> and once more for
  every record that is handed to \<^verbatim>\<open>createTraceLog\<close>. \<open>clock_reads evs\<close> is the number of
  readings after the calls \<open>evs\<close>, so the next reading is \<open>Date_now w (clock_reads evs)\<close>.
\<close>

definition clock_reads :: "event list \<Rightarrow> nat" where
  "clock_reads evs = Suc (length (trace_logs evs))"

section \<open>Prompt composer\<close>

fun join :: "jsstring \<Rightarrow> jsstring list \<Rightarrow> jsstring" where
  "join sep [] = []"
| "join sep [x] = x"
| "join sep (x # xs) = x @ sep @ join sep xs"

definition basePrompt_head :: jsstring where
  \<open>basePrompt_head = S ''You are BrightBot, the friendly and helpful AI assistant for BrightCare Daycare. You help parents, caregivers, and guardians with questions about our daycare facility.\<newline>\<newline>IMPORTANT RULES:\<newline>- Always begin by thanking the parent for their question or inquiry\<newline>- Be respectful, empathetic, and friendly in all responses\<newline>- Only answer questions related to BrightCare Daycare and its operations\<newline>- NEVER reveal any child's personally identifiable information (PII) such as names, addresses, medical records, or any sensitive data\<newline>- NEVER share internal company information, staff personal details, or confidential operational data\<newline>- Comply with COPPA (Children's Online Privacy Protection Act) and FERPA (Family Educational Rights and Privacy Act) regulations at all times\<newline>- If asked about topics unrelated to the daycare facility, respond with: "I'm sorry. I can't help you with that, but I can answer any questions regarding this facility and its operations."\<newline>- If you don't have specific information about a topic, say so honestly and suggest the parent contact the facility directly\<newline>\<newline>FACILITY KNOWLEDGE BASE:\<newline>''\<close>

definition compose_prompt :: "prompt list \<Rightarrow> document list \<Rightarrow> jsstring" where
  "compose_prompt activePrompts activeDocuments =
     (let basePrompt = basePrompt_head @
            join (S ''\<newline>\<newline>'')
              (map (\<lambda>doc. S ''--- '' @ doc_title doc @ S '' ('' @ doc_category doc @ S '') ---\<newline>''
                     @ doc_content doc) activeDocuments);
          customPrompts = join (S ''\<newline>\<newline>'') (map prompt_content activePrompts)
      in if customPrompts \<noteq> []
         then basePrompt @ S ''\<newline>\<newline>ADDITIONAL INSTRUCTIONS:\<newline>'' @ customPrompts
         else basePrompt)"

definition buildSystemPrompt :: "world \<Rightarrow> jsstring io" where
  "buildSystemPrompt w =
     bind (call GetActivePrompts (getActivePrompts w)) (\<lambda>activePrompts.
     bind (call GetActiveDocuments (getActiveDocuments w)) (\<lambda>activeDocuments.
     ret (compose_prompt activePrompts activeDocuments)))"

section \<open>Evaluator\<close>

text \<open>
  A parameter that shares its name with a field of the trace record carries a prime:
  \<open>userMessage'\<close> is the parameter \<^verbatim>\<open>userMessage\<close> of the source.
\<close>

record evaluation =
  score :: jsnumber
  feedback :: json
  eval_traceId :: "jsstring option"

definition evaluator_system_prompt :: jsstring where
  \<open>evaluator_system_prompt = S ''You are a quality evaluator for a daycare AI assistant called BrightBot. Score the assistant's response on a scale of 0-100 based on:\<newline>- Thanking the parent (10 points)\<newline>- Accuracy based on daycare context (30 points)\<newline>- Helpfulness and completeness (25 points)\<newline>- Appropriate tone (empathetic, friendly, professional) (15 points)\<newline>- COPPA/FERPA compliance - no PII disclosure (20 points - 0 if violated)\<newline>\<newline>Respond in JSON format: {"score": number, "feedback": "brief explanation"}''\<close>

definition evaluator_request :: "jsstring \<Rightarrow> jsstring \<Rightarrow> request" where
  \<open>evaluator_request userMessage' assistantResponse =
     \<lparr>request_model = S ''gpt-4o-mini'',
      messages =
        [\<lparr>role = S ''system'', content = evaluator_system_prompt\<rparr>,
         \<lparr>role = S ''user'',
          content = S ''Parent question: "'' @ userMessage' @ S ''"\<newline>\<newline>BrightBot response: "''
            @ assistantResponse @ S ''"''\<rparr>],
      max_completion_tokens = 256,
      response_format = Some (S ''json_object'')\<rparr>\<close>

text \<open>\<^verbatim>\<open>completion.choices[0]?.message?.content\<close>\<close>

definition first_content :: "chat_completion \<Rightarrow> jsstring option" where
  "first_content completion =
     (case choices completion of [] \<Rightarrow> None
      | c # _ \<Rightarrow> (case choice_message c of None \<Rightarrow> None | Some m \<Rightarrow> m))"

definition default_evalContent :: jsstring where
  \<open>default_evalContent = S ''{"score": 70, "feedback": "Unable to fully evaluate"}''\<close>

text \<open>
  \<^verbatim>\<open>JSON.parse\<close> is the runtime's, except at the literal that the source itself
  supplies, where its value is the object written out here.
\<close>

definition parse_evalContent :: "world \<Rightarrow> jsstring \<Rightarrow> error + json" where
  "parse_evalContent w evalContent =
     (if evalContent = default_evalContent
      then Inr (JObject [(S ''score'', JNumber (Finite 70)),
                         (S ''feedback'', JString (S ''Unable to fully evaluate''))])
      else JSON_parse w evalContent)"

text \<open>The argument conversion of \<^verbatim>\<open>Math.min\<close>.\<close>

definition to_number :: "world \<Rightarrow> json \<Rightarrow> jsnumber" where
  "to_number w v =
     (case v of JNumber n \<Rightarrow> n
      | JBool b \<Rightarrow> Finite (if b then 1 else 0)
      | JNull \<Rightarrow> Finite 0
      | _ \<Rightarrow> ToNumber w v)"

definition runEvaluatorAgent :: "world \<Rightarrow> jsstring \<Rightarrow> jsstring \<Rightarrow> evaluation io" where
  "runEvaluatorAgent w userMessage' assistantResponse =
     try_catch
       (bind (call (EvaluatorCall (evaluator_request userMessage' assistantResponse))
                (chat_completions_create w (evaluator_request userMessage' assistantResponse)))
          (\<lambda>evaluatorCompletion.
        let evalContent = or_string (first_content evaluatorCompletion) default_evalContent in
        bind ([], parse_evalContent w evalContent) (\<lambda>evalResult.
        bind ([], get_property evalResult (S ''score'')) (\<lambda>evalResult_score.
        bind ([], get_property evalResult (S ''feedback'')) (\<lambda>evalResult_feedback.
        ret \<lparr>score = Math_max (Finite 0)
                 (Math_min (Finite 100) (to_number w (or_else evalResult_score (JNumber (Finite 70))))),
             feedback = or_else evalResult_feedback (JString (S ''Evaluation completed.'')),
             eval_traceId = or_null (completion_id evaluatorCompletion)\<rparr>)))))
       (\<lambda>tried error.
        ret \<lparr>score = Finite 70,
             feedback = JString (S ''Evaluator unavailable - default score applied.''),
             eval_traceId = None\<rparr>)"

section \<open>Turn orchestrator\<close>

record reply =
  reply_content :: jsstring
  reply_blocked :: bool
  reply_blockReason :: "jsstring option"

definition blockedResponse :: jsstring where
  "blockedResponse = S ''I'm sorry. I can't help you with that, but I can answer any questions regarding this facility and its operations.''"

definition safeResponse :: jsstring where
  "safeResponse = S ''I apologize, but I encountered an issue generating a safe response. Please contact the facility directly for assistance.''"

definition unable_response :: jsstring where
  "unable_response = S ''I apologize, but I was unable to generate a response. Please try again.''"

definition failed_to_process :: error where
  "failed_to_process = Error (S ''Failed to process message. Please try again.'')"

definition completion_request :: "jsstring \<Rightarrow> chat_message list \<Rightarrow> jsstring \<Rightarrow> request" where
  "completion_request systemPrompt history userMessage' =
     \<lparr>request_model = S ''gpt-4o-mini'',
      messages = [\<lparr>role = S ''system'', content = systemPrompt\<rparr>] @ history
        @ [\<lparr>role = S ''user'', content = userMessage'\<rparr>],
      max_completion_tokens = 1024,
      response_format = None\<rparr>"

definition usage_or_zero :: "completion_usage option \<Rightarrow> (completion_usage \<Rightarrow> int) \<Rightarrow> int" where
  "usage_or_zero u field = (case u of None \<Rightarrow> 0 | Some x \<Rightarrow> field x)"

definition processMessage :: "world \<Rightarrow> int \<Rightarrow> jsstring \<Rightarrow> reply io" where
  "processMessage w conversationId' userMessage' =
     (let startTime = Date_now w 0;
          guardrailCheck = checkInputGuardrails (String_toLowerCase w) userMessage'
      in
      if \<not> passed guardrailCheck then
        bind (let log = \<lparr>conversationId = Some conversationId',
                 traceId = None,
                 model = S ''guardrail-input'',
                 promptTokens = 0,
                 completionTokens = 0,
                 totalTokens = 0,
                 userMessage = Some userMessage',
                 assistantMessage = Some blockedResponse,
                 guardrailResult = Some (or_string (reason guardrailCheck) (S ''blocked'')),
                 evaluatorScore = None,
                 evaluatorFeedback = None,
                 blocked = True,
                 blockReason = Some (or_string (reason guardrailCheck) (S ''Guardrail violation'')),
                 responseTimeMs = Some (Date_now w 1 - startTime)\<rparr>
              in call (CreateTraceLog log) (createTraceLog w log)) (\<lambda>_.
        ret \<lparr>reply_content = blockedResponse, reply_blocked = True,
             reply_blockReason = reason guardrailCheck\<rparr>)
      else
        bind (buildSystemPrompt w) (\<lambda>systemPrompt.
        bind (call (GetMessages conversationId') (getMessages w conversationId')) (\<lambda>previousMessages.
        let chatMessages = completion_request systemPrompt
              (map (\<lambda>m. \<lparr>role = msg_role m, content = msg_content m\<rparr>) previousMessages)
              userMessage'
        in
        try_catch
          (bind (call (CompletionCall chatMessages) (chat_completions_create w chatMessages))
             (\<lambda>completion.
           let assistantContent = or_string (first_content completion) unable_response;
               outputCheck = checkOutputGuardrails (String_toLowerCase w) assistantContent
           in
           if \<not> passed outputCheck then
             bind (let log = \<lparr>conversationId = Some conversationId',
                      traceId = or_null (completion_id completion),
                      model = or_string (completion_model completion) (S ''gpt-4o-mini''),
                      promptTokens = usage_or_zero (usage completion) prompt_tokens,
                      completionTokens = usage_or_zero (usage completion) completion_tokens,
                      totalTokens = usage_or_zero (usage completion) total_tokens,
                      userMessage = Some userMessage',
                      assistantMessage = Some safeResponse,
                      guardrailResult = Some (S ''Output blocked: '' @ or_string (reason outputCheck) []),
                      evaluatorScore = Some (Finite 0),
                      evaluatorFeedback = Some (JString (S ''Response blocked by output guardrails'')),
                      blocked = True,
                      blockReason = Some (or_string (reason outputCheck) (S ''Output guardrail violation'')),
                      responseTimeMs = Some (Date_now w 1 - startTime)\<rparr>
                   in call (CreateTraceLog log) (createTraceLog w log)) (\<lambda>_.
             ret \<lparr>reply_content = safeResponse, reply_blocked = True,
                  reply_blockReason = reason outputCheck\<rparr>)
           else
             bind (runEvaluatorAgent w userMessage' assistantContent) (\<lambda>evaluation.
             bind (let log = \<lparr>conversationId = Some conversationId',
                      traceId = or_null (completion_id completion),
                      model = or_string (completion_model completion) (S ''gpt-4o-mini''),
                      promptTokens = usage_or_zero (usage completion) prompt_tokens,
                      completionTokens = usage_or_zero (usage completion) completion_tokens,
                      totalTokens = usage_or_zero (usage completion) total_tokens,
                      userMessage = Some userMessage',
                      assistantMessage = Some assistantContent,
                      guardrailResult = Some (S ''passed''),
                      evaluatorScore = Some (score evaluation),
                      evaluatorFeedback = Some (feedback evaluation),
                      blocked = False,
                      blockReason = None,
                      responseTimeMs = Some (Date_now w 1 - startTime)\<rparr>
                   in call (CreateTraceLog log) (createTraceLog w log)) (\<lambda>_.
             ret \<lparr>reply_content = assistantContent, reply_blocked = False,
                  reply_blockReason = None\<rparr>))))
          (\<lambda>tried error.
           bind (let log = \<lparr>conversationId = Some conversationId',
                    traceId = None,
                    model = S ''gpt-4o-mini'',
                    promptTokens = 0,
                    completionTokens = 0,
                    totalTokens = 0,
                    userMessage = Some userMessage',
                    assistantMessage = None,
                    guardrailResult = Some (S ''error''),
                    evaluatorScore = None,
                    evaluatorFeedback = Some (JString (message error)),
                    blocked = False,
                    blockReason = None,
                    responseTimeMs = Some (Date_now w (clock_reads tried) - startTime)\<rparr>
                 in call (CreateTraceLog log) (createTraceLog w log)) (\<lambda>_.
           throw failed_to_process)))))"

definition processEphemeralMessage :: "world \<Rightarrow> jsstring \<Rightarrow> chat_message list \<Rightarrow> reply io" where
  "processEphemeralMessage w userMessage' history =
     (let guardrailCheck = checkInputGuardrails (String_toLowerCase w) userMessage' in
      if \<not> passed guardrailCheck then
        ret \<lparr>reply_content = blockedResponse, reply_blocked = True,
             reply_blockReason = reason guardrailCheck\<rparr>
      else
        bind (buildSystemPrompt w) (\<lambda>systemPrompt.
        let chatMessages = completion_request systemPrompt history userMessage' in
        try_catch
          (bind (call (CompletionCall chatMessages) (chat_completions_create w chatMessages))
             (\<lambda>completion.
           let assistantContent = or_string (first_content completion) unable_response;
               outputCheck = checkOutputGuardrails (String_toLowerCase w) assistantContent
           in
           if \<not> passed outputCheck then
             ret \<lparr>reply_content = safeResponse, reply_blocked = True,
                  reply_blockReason = reason outputCheck\<rparr>
           else
             ret \<lparr>reply_content = assistantContent, reply_blocked = False,
                  reply_blockReason = None\<rparr>))
          (\<lambda>tried error. throw failed_to_process)))"

section \<open>Example worlds\<close>

text \<open>
  Concrete collaborators for the concrete runs below. The endpoint answers the completion
  request with a reply about the opening hours and the evaluator request (the one with a
  response format) with a score of 85; the runtime lowers ASCII letters and parses the
  evaluator's answer.
\<close>

definition example_completion :: chat_completion where
  "example_completion =
     \<lparr>completion_id = Some (S ''chatcmpl-1''),
      completion_model = Some (S ''gpt-4o-mini-2024-07-18''),
      choices = [\<lparr>choice_message =
        Some (Some (S ''Thank you for asking! We are open from 6:30 AM to 6:30 PM.''))\<rparr>],
      usage = Some \<lparr>prompt_tokens = 420, completion_tokens = 18, total_tokens = 438\<rparr>\<rparr>"

definition example_evaluator_completion :: "jsstring \<Rightarrow> chat_completion" where
  "example_evaluator_completion text =
     \<lparr>completion_id = Some (S ''chatcmpl-2''),
      completion_model = Some (S ''gpt-4o-mini-2024-07-18''),
      choices = [\<lparr>choice_message = Some (Some text)\<rparr>],
      usage = Some \<lparr>prompt_tokens = 150, completion_tokens = 12, total_tokens = 162\<rparr>\<rparr>"

definition example_world :: world where
  \<open>example_world =
     \<lparr>String_toLowerCase = ascii_toLowerCase,
      JSON_parse = (\<lambda>s. if s = S ''{"score": 85, "feedback": "Good"}''
         then Inr (JObject [(S ''score'', JNumber (Finite 85)), (S ''feedback'', JString (S ''Good''))])
         else Inl (Error (S ''Unexpected token''))),
      ToNumber = (\<lambda>v. NaN),
      Date_now = (\<lambda>n. 1000 + 250 * int n),
      getActivePrompts = Inr [],
      getActiveDocuments = Inr [\<lparr>doc_title = S ''Hours'', doc_category = S ''operations'',
         doc_content = S ''Open 6:30-6:30''\<rparr>],
      getMessages = (\<lambda>c. Inr []),
      createTraceLog = (\<lambda>log. Inr ()),
      chat_completions_create = (\<lambda>req. if response_format req = None then Inr example_completion
         else Inr (example_evaluator_completion (S ''{"score": 85, "feedback": "Good"}'')))\<rparr>\<close>

text \<open>The evaluator scores a reply with 0.\<close>

definition zero_score_world :: world where
  \<open>zero_score_world = example_world
     \<lparr>JSON_parse := (\<lambda>s. if s = S ''{"score": 0, "feedback": "Discloses a record"}''
         then Inr (JObject [(S ''score'', JNumber (Finite 0)),
                            (S ''feedback'', JString (S ''Discloses a record''))])
         else Inl (Error (S ''Unexpected token''))),
      chat_completions_create := (\<lambda>req. if response_format req = None then Inr example_completion
         else Inr (example_evaluator_completion (S ''{"score": 0, "feedback": "Discloses a record"}'')))\<rparr>\<close>

text \<open>The completion endpoint is unreachable.\<close>

definition failing_world :: world where
  "failing_world = example_world
     \<lparr>chat_completions_create := (\<lambda>req. Inl (Error (S ''Connection error.'')))\<rparr>"

text \<open>The completion has a first choice whose message has no content.\<close>

definition empty_reply_world :: world where
  \<open>empty_reply_world = example_world
     \<lparr>chat_completions_create := (\<lambda>req. if response_format req = None
         then Inr (example_completion\<lparr>choices := [\<lparr>choice_message = Some None\<rparr>]\<rparr>)
         else Inr (example_evaluator_completion (S ''{"score": 85, "feedback": "Good"}'')))\<rparr>\<close>

text \<open>The completion mentions a sensitive topic.\<close>

definition unsafe_reply_world :: world where
  \<open>unsafe_reply_world = example_world
     \<lparr>chat_completions_create := (\<lambda>req. if response_format req = None
         then Inr (example_completion\<lparr>choices := [\<lparr>choice_message =
           Some (Some (S ''Thank you. The diagnosis is in the file.''))\<rparr>]\<rparr>)
         else Inr (example_evaluator_completion (S ''{"score": 85, "feedback": "Good"}'')))\<rparr>\<close>

text \<open>A world that differs from \<open>example_world\<close> in its clock and its case mapping.\<close>

definition later_world :: world where
  "later_world = example_world
     \<lparr>String_toLowerCase := (\<lambda>s. s), Date_now := (\<lambda>n. 5000 + 100 * int n)\<rparr>"

section \<open>Lemmas on the effect combinators\<close>

lemma bind_call_returns:
  "outcome = Inr x \<Longrightarrow> bind (call ev outcome) f = (ev # fst (f x), snd (f x))"
  by (simp add: bind_def call_def)

lemma trace_logs_append: "trace_logs (xs @ ys) = trace_logs xs @ trace_logs ys"
  by (induction xs rule: trace_logs.induct) simp_all

lemma buildSystemPrompt_returns:
  "getActivePrompts w = Inr ps \<Longrightarrow> getActiveDocuments w = Inr ds \<Longrightarrow>
   buildSystemPrompt w = ([GetActivePrompts, GetActiveDocuments], Inr (compose_prompt ps ds))"
  by (simp add: buildSystemPrompt_def bind_call_returns ret_def)

lemma buildSystemPrompt_events:
  "set (fst (buildSystemPrompt w)) \<subseteq> {GetActivePrompts, GetActiveDocuments}"
  by (auto simp: buildSystemPrompt_def bind_def call_def ret_def split: sum.splits)

section \<open>The guardrails\<close>

lemma concat_map_concat:
  "concat (map f (concat xss)) = concat (map (\<lambda>xs. concat (map f xs)) xss)"
  by (induction xss) simp_all

lemma match_Seq_fun:
  "match ic (Seq r1 r2) = (\<lambda>k. concat (map (match ic r2) (match ic r1 k)))"
  by (rule ext) simp

lemma match_Seq_assoc:
  "match ic (Seq (Seq r1 r2) r3) k = match ic (Seq r1 (Seq r2 r3)) k"
  by (simp add: match_Seq_fun concat_map_concat comp_def)




text \<open>A match between word boundaries is a match: the source rejects no more than the
  patterns of the specification do.\<close>

lemma match_word_bounded:
  "match (ignoreCase re) (pattern (word_bounded re)) k \<noteq> [] \<Longrightarrow>
   match (ignoreCase re) (pattern re) k \<noteq> []"
  by (auto simp: word_bounded_def split: if_splits)

lemma search_word_bounded: "search (word_bounded re) p s \<Longrightarrow> search re p s"
proof (induction s arbitrary: p)
  case Nil
  then show ?case using match_word_bounded [of re "(p, [])"] by (simp add: word_bounded_def)
next
  case (Cons c cs)
  then show ?case using match_word_bounded [of re "(p, c # cs)"] by (auto simp: word_bounded_def)
qed

lemma test_word_bounded: "test (word_bounded re) s \<Longrightarrow> test re s"
  by (simp add: test_def search_word_bounded)

lemma first_keyword_None:
  "first_keyword lowerResponse kws = None \<longleftrightarrow>
     (\<not> list_ex (includes_str lowerResponse) kws
      \<or> includes_str lowerResponse (S ''we do not'') \<or> includes_str lowerResponse (S ''never share''))"
  by (induction kws) auto


lemma checkOutputGuardrails_cong:
  "lower response = lower' response \<Longrightarrow>
   checkOutputGuardrails lower response = checkOutputGuardrails lower' response"
  by (simp add: checkOutputGuardrails_def)

lemma unable_response_ascii: "list_all (\<lambda>c. c < 128) unable_response"
  by code_simp

lemma unable_response_passes_ascii:
  "checkOutputGuardrails ascii_toLowerCase unable_response = \<lparr>passed = True, reason = None\<rparr>"
  by code_simp

text \<open>
  The substitute for an empty reply passes the output check under every case mapping that
  lowers ASCII text as JavaScript does.
\<close>

lemma unable_response_passes:
  assumes "lowers_ascii lower"
  shows "checkOutputGuardrails lower unable_response = \<lparr>passed = True, reason = None\<rparr>"
proof -
  from assms unable_response_ascii have "lower unable_response = ascii_toLowerCase unable_response"
    by (simp add: lowers_ascii_def)
  then show ?thesis
    using checkOutputGuardrails_cong unable_response_passes_ascii by metis
qed

text \<open>
  C6. A reply whose lower-cased text contains a listed sensitive keyword and neither
  \<^verbatim>\<open>we do not\<close> nor \<^verbatim>\<open>never share\<close> is rejected by \<open>checkOutputGuardrails\<close>:
  \<open>passed\<close> is false, whether a PII pattern or the keyword triggers first.
\<close>

theorem sensitive_keyword_rejected:
  assumes "list_ex (includes_str (toLowerCase response)) sensitiveKeywords"
    and "\<not> includes_str (toLowerCase response) (S ''we do not'')"
    and "\<not> includes_str (toLowerCase response) (S ''never share'')"
  shows "passed (checkOutputGuardrails toLowerCase response) = False"
proof (cases "list_ex (\<lambda>pattern. test pattern response) output_piiPatterns")
  case True
  then show ?thesis by (simp add: checkOutputGuardrails_def)
next
  case False
  from assms have "first_keyword (toLowerCase response) sensitiveKeywords \<noteq> None"
    by (simp add: first_keyword_None)
  then obtain keyword where "first_keyword (toLowerCase response) sensitiveKeywords = Some keyword"
    by blast
  with False show ?thesis by (simp add: checkOutputGuardrails_def Let_def)
qed

theorem sensitive_keyword_rejected_witness:
  "list_ex (includes_str (ascii_toLowerCase (S ''Your Bank Account is on file''))) sensitiveKeywords
   \<and> \<not> includes_str (ascii_toLowerCase (S ''Your Bank Account is on file'')) (S ''we do not'')
   \<and> \<not> includes_str (ascii_toLowerCase (S ''Your Bank Account is on file'')) (S ''never share'')
   \<and> passed (checkOutputGuardrails ascii_toLowerCase (S ''Your Bank Account is on file'')) = False"
proof -
  have keyword:
    "list_ex (includes_str (ascii_toLowerCase (S ''Your Bank Account is on file''))) sensitiveKeywords"
    "\<not> includes_str (ascii_toLowerCase (S ''Your Bank Account is on file'')) (S ''we do not'')"
    "\<not> includes_str (ascii_toLowerCase (S ''Your Bank Account is on file'')) (S ''never share'')"
    by code_simp+
  from sensitive_keyword_rejected [of ascii_toLowerCase "S ''Your Bank Account is on file''", OF keyword]
    keyword
  show ?thesis by blast
qed

text \<open>
  C3, as the code has it. \<open>checkOutputGuardrails\<close> applies three of the four PII patterns
  of \<open>checkInputGuardrails\<close>: SSN, phone number and e-mail address, and not the street
  address. A reply that matches one of the three is rejected with the PII reason. A reply
  that matches none of the three and whose lower-cased text contains no sensitive keyword
  passes, whether or not it matches the street address pattern.
\<close>

theorem output_check_applies_three_patterns:
  "(test ssn_pattern response \<or> test phone_pattern response \<or> test email_pattern response
      \<longrightarrow> checkOutputGuardrails lower response = \<lparr>passed = False, reason = Some output_pii_reason\<rparr>)
   \<and> (\<not> test ssn_pattern response \<and> \<not> test phone_pattern response
       \<and> \<not> test email_pattern response
       \<and> \<not> list_ex (includes_str (lower response)) sensitiveKeywords
      \<longrightarrow> checkOutputGuardrails lower response = \<lparr>passed = True, reason = None\<rparr>)"
  by (auto simp: checkOutputGuardrails_def output_piiPatterns_def Let_def first_keyword_None
        split: option.splits)

theorem output_check_applies_three_patterns_witness:
  "test phone_pattern (S ''Call 555-123-4567'')
   \<and> checkOutputGuardrails ascii_toLowerCase (S ''Call 555-123-4567'')
       = \<lparr>passed = False, reason = Some output_pii_reason\<rparr>
   \<and> \<not> test ssn_pattern (S ''Visit 12 Main Street'')
   \<and> \<not> test phone_pattern (S ''Visit 12 Main Street'')
   \<and> \<not> test email_pattern (S ''Visit 12 Main Street'')
   \<and> \<not> list_ex (includes_str (ascii_toLowerCase (S ''Visit 12 Main Street''))) sensitiveKeywords
   \<and> checkOutputGuardrails ascii_toLowerCase (S ''Visit 12 Main Street'')
       = \<lparr>passed = True, reason = None\<rparr>"
proof -
  have phone: "test phone_pattern (S ''Call 555-123-4567'')"
    by code_simp
  have clean: "\<not> test ssn_pattern (S ''Visit 12 Main Street'')"
    "\<not> test phone_pattern (S ''Visit 12 Main Street'')"
    "\<not> test email_pattern (S ''Visit 12 Main Street'')"
    "\<not> list_ex (includes_str (ascii_toLowerCase (S ''Visit 12 Main Street''))) sensitiveKeywords"
    by code_simp+
  from output_check_applies_three_patterns [of "S ''Call 555-123-4567''" ascii_toLowerCase]
    output_check_applies_three_patterns [of "S ''Visit 12 Main Street''" ascii_toLowerCase]
    phone clean
  show ?thesis by blast
qed

text \<open>
  C3 as stated fails: the reply \<^verbatim>\<open>We are at 12 Main Street\<close> matches the street address
  pattern, no other PII pattern and no sensitive keyword. The input check rejects the same
  text, the output check passes it.
\<close>

theorem output_check_passes_street_address:
  "test address_pattern (S ''We are at 12 Main Street'')
   \<and> \<not> test ssn_pattern (S ''We are at 12 Main Street'')
   \<and> \<not> test phone_pattern (S ''We are at 12 Main Street'')
   \<and> \<not> test email_pattern (S ''We are at 12 Main Street'')
   \<and> \<not> list_ex (includes_str (ascii_toLowerCase (S ''We are at 12 Main Street''))) sensitiveKeywords
   \<and> checkInputGuardrails ascii_toLowerCase (S ''We are at 12 Main Street'')
       = \<lparr>passed = False, reason = Some input_pii_reason\<rparr>
   \<and> checkOutputGuardrails ascii_toLowerCase (S ''We are at 12 Main Street'')
       = \<lparr>passed = True, reason = None\<rparr>"
  by code_simp

section \<open>The evaluator\<close>

lemma runEvaluatorAgent_events:
  "fst (runEvaluatorAgent w u a) = [EvaluatorCall (evaluator_request u a)]"
  by (auto simp: runEvaluatorAgent_def try_catch_def bind_def call_def ret_def Let_def
        split: sum.splits)

text \<open>The evaluator absorbs every failure: it always returns an evaluation.\<close>

lemma runEvaluatorAgent_never_throws:
  "\<exists>r. snd (runEvaluatorAgent w u a) = Inr r"
  by (auto simp: runEvaluatorAgent_def try_catch_def bind_def call_def ret_def Let_def
        split: sum.splits)

lemma runEvaluatorAgent_result:
  obtains r where "runEvaluatorAgent w u a = ([EvaluatorCall (evaluator_request u a)], Inr r)"
  using runEvaluatorAgent_events [of w u a] runEvaluatorAgent_never_throws [of w u a]
  by (metis prod.collapse)

lemma Math_clamp_range:
  assumes "n \<noteq> NaN"
  shows "num_le (Finite 0) (Math_max (Finite 0) (Math_min (Finite 100) n))
     \<and> num_le (Math_max (Finite 0) (Math_min (Finite 100) n)) (Finite 100)"
  using assms by (cases n) (auto simp: Math_max_def Math_min_def)

text \<open>
  What holds of the score: a numeric score other than zero is clamped, a missing score
  and a failed call give 70.
\<close>

lemma evaluator_score_clamped:
  assumes "chat_completions_create w (evaluator_request u a) = Inr c"
    and "first_content c = Some txt" and "txt \<noteq> []"
    and "parse_evalContent w txt = Inr (JObject kvs)"
    and "map_of kvs (S ''score'') = Some (JNumber n)"
    and "n \<noteq> Finite 0" and "n \<noteq> NaN"
  shows "\<exists>r. snd (runEvaluatorAgent w u a) = Inr r
     \<and> score r = Math_max (Finite 0) (Math_min (Finite 100) n)"
  using assms
  by (simp add: runEvaluatorAgent_def try_catch_def bind_def call_def ret_def Let_def
        or_string_def or_else_def to_number_def)

lemma evaluator_score_missing:
  assumes "chat_completions_create w (evaluator_request u a) = Inr c"
    and "first_content c = Some txt" and "txt \<noteq> []"
    and "parse_evalContent w txt = Inr (JObject kvs)"
    and "map_of kvs (S ''score'') = None"
  shows "\<exists>r. snd (runEvaluatorAgent w u a) = Inr r \<and> score r = Finite 70"
  using assms
  by (simp add: runEvaluatorAgent_def try_catch_def bind_def call_def ret_def Let_def
        or_string_def or_else_def to_number_def Math_max_def Math_min_def)

lemma evaluator_fallback_on_failure:
  assumes "chat_completions_create w (evaluator_request u a) = Inl err"
  shows "snd (runEvaluatorAgent w u a) = Inr \<lparr>score = Finite 70,
     feedback = JString (S ''Evaluator unavailable - default score applied.''),
     eval_traceId = None\<rparr>"
  using assms
  by (simp add: runEvaluatorAgent_def try_catch_def bind_def call_def ret_def)

text \<open>A score of zero takes the same branch of \<^verbatim>\<open>||\<close> as a missing one.\<close>

lemma evaluator_score_zero:
  assumes "chat_completions_create w (evaluator_request u a) = Inr c"
    and "first_content c = Some txt" and "txt \<noteq> []"
    and "parse_evalContent w txt = Inr (JObject kvs)"
    and "map_of kvs (S ''score'') = Some (JNumber (Finite 0))"
  shows "\<exists>r. snd (runEvaluatorAgent w u a) = Inr r \<and> score r = Finite 70"
  using assms
  by (simp add: runEvaluatorAgent_def try_catch_def bind_def call_def ret_def Let_def
        or_string_def or_else_def to_number_def Math_max_def Math_min_def)

text \<open>
  C4 at the score 0. The evaluator model answers
  \<^verbatim>\<open>{"score": 0, "feedback": "Discloses a record"}\<close>, which parses to an object whose
  score is the number 0. \<open>runEvaluatorAgent\<close> returns the score 70, where 0 clamped into
  the range from 0 to 100 is 0.
\<close>

theorem zero_score_becomes_fallback:
  \<open>chat_completions_create zero_score_world (evaluator_request (S ''Is my child ill?'') (S ''Yes.''))
     = Inr (example_evaluator_completion (S ''{"score": 0, "feedback": "Discloses a record"}''))
   \<and> parse_evalContent zero_score_world (S ''{"score": 0, "feedback": "Discloses a record"}'')
     = Inr (JObject [(S ''score'', JNumber (Finite 0)),
                     (S ''feedback'', JString (S ''Discloses a record''))])
   \<and> snd (runEvaluatorAgent zero_score_world (S ''Is my child ill?'') (S ''Yes.''))
     = Inr \<lparr>score = Finite 70, feedback = JString (S ''Discloses a record''),
            eval_traceId = Some (S ''chatcmpl-2'')\<rparr>
   \<and> Math_max (Finite 0) (Math_min (Finite 100) (Finite 0)) = Finite 0\<close>
  by code_simp

section \<open>The prompt composer\<close>

text \<open>
  C9. The composed prompt is a function of the two collections that storage returns: two
  runs of \<open>buildSystemPrompt\<close> in worlds that agree on the active prompts and the active
  documents, and may differ in everything else, make the same calls and return the same
  text.
\<close>

theorem buildSystemPrompt_deterministic:
  assumes "getActivePrompts w = getActivePrompts w'"
    and "getActiveDocuments w = getActiveDocuments w'"
  shows "buildSystemPrompt w = buildSystemPrompt w'"
  using assms by (simp add: buildSystemPrompt_def)

theorem buildSystemPrompt_deterministic_witness:
  "getActivePrompts example_world = getActivePrompts later_world
   \<and> getActiveDocuments example_world = getActiveDocuments later_world
   \<and> Date_now example_world 0 \<noteq> Date_now later_world 0
   \<and> buildSystemPrompt example_world = buildSystemPrompt later_world"
proof -
  have same: "getActivePrompts example_world = getActivePrompts later_world"
    "getActiveDocuments example_world = getActiveDocuments later_world"
    by (simp_all add: later_world_def)
  have clock: "Date_now example_world 0 \<noteq> Date_now later_world 0"
    by (simp add: later_world_def example_world_def)
  from buildSystemPrompt_deterministic [OF same] same clock show ?thesis by blast
qed

section \<open>The persistent turn\<close>

lemma processMessage_input_blocked:
  "\<not> passed (checkInputGuardrails (String_toLowerCase w) msg) \<Longrightarrow>
   \<exists>entry. fst (processMessage w cid msg) = [CreateTraceLog entry]
     \<and> assistantMessage entry = Some blockedResponse"
  by (simp add: processMessage_def Let_def bind_def call_def ret_def split: sum.splits)

text \<open>
  C1. When the storage operations succeed, every run of \<open>processMessage\<close> makes exactly
  one \<open>createTraceLog\<close> call, on each of its paths: the input block, the output block,
  the evaluated reply and the failed completion call.
\<close>

theorem processMessage_persists_one_trace:
  assumes "getActivePrompts w = Inr ps"
    and "getActiveDocuments w = Inr ds"
    and "getMessages w cid = Inr ms"
    and "\<And>entry. createTraceLog w entry = Inr ()"
  shows "length (trace_logs (fst (processMessage w cid msg))) = 1"
proof (cases "passed (checkInputGuardrails (String_toLowerCase w) msg)")
  case False
  then show ?thesis
    using processMessage_input_blocked [of w msg cid] by auto
next
  case True
  let ?req = "completion_request (compose_prompt ps ds)
     (map (\<lambda>m. \<lparr>role = msg_role m, content = msg_content m\<rparr>) ms) msg"
  show ?thesis
  proof (cases "chat_completions_create w ?req")
    case (Inl err)
    with True assms show ?thesis
      by (simp add: processMessage_def Let_def buildSystemPrompt_returns bind_def try_catch_def
            call_def ret_def throw_def clock_reads_def)
  next
    case (Inr completion)
    let ?reply = "or_string (first_content completion) unable_response"
    obtain r where ev: "runEvaluatorAgent w msg ?reply
        = ([EvaluatorCall (evaluator_request msg ?reply)], Inr r)"
      by (rule runEvaluatorAgent_result)
    from True assms Inr ev show ?thesis
      by (simp add: processMessage_def Let_def buildSystemPrompt_returns bind_def try_catch_def
            call_def ret_def throw_def clock_reads_def)
  qed
qed

theorem processMessage_persists_one_trace_witness:
  \<open>(\<forall>entry. createTraceLog example_world entry = Inr ())
   \<and> length (trace_logs (fst (processMessage example_world 7 (S ''My SSN is 123-45-6789'')))) = 1
   \<and> map model (trace_logs (fst (processMessage example_world 7 (S ''My SSN is 123-45-6789''))))
       = [S ''guardrail-input'']
   \<and> length (trace_logs (fst (processMessage unsafe_reply_world 7 (S ''What are your hours?'')))) = 1
   \<and> map blockReason (trace_logs (fst (processMessage unsafe_reply_world 7 (S ''What are your hours?''))))
       = [Some (S ''Response references sensitive information: "diagnosis"'')]
   \<and> length (trace_logs (fst (processMessage example_world 7 (S ''What are your hours?'')))) = 1
   \<and> map guardrailResult (trace_logs (fst (processMessage example_world 7 (S ''What are your hours?''))))
       = [Some (S ''passed'')]
   \<and> length (trace_logs (fst (processMessage failing_world 7 (S ''What are your hours?'')))) = 1
   \<and> map guardrailResult (trace_logs (fst (processMessage failing_world 7 (S ''What are your hours?''))))
       = [Some (S ''error'')]\<close>
proof -
  have storage: "getActivePrompts example_world = Inr []"
    "getActiveDocuments example_world = Inr [\<lparr>doc_title = S ''Hours'',
       doc_category = S ''operations'', doc_content = S ''Open 6:30-6:30''\<rparr>]"
    "getMessages example_world 7 = Inr []"
    "\<And>entry. createTraceLog example_world entry = Inr ()"
    by (simp_all add: example_world_def)
  have unsafe: "getActivePrompts unsafe_reply_world = Inr []"
    "getActiveDocuments unsafe_reply_world = Inr [\<lparr>doc_title = S ''Hours'',
       doc_category = S ''operations'', doc_content = S ''Open 6:30-6:30''\<rparr>]"
    "getMessages unsafe_reply_world 7 = Inr []"
    "\<And>entry. createTraceLog unsafe_reply_world entry = Inr ()"
    by (simp_all add: unsafe_reply_world_def example_world_def)
  have failing: "getActivePrompts failing_world = Inr []"
    "getActiveDocuments failing_world = Inr [\<lparr>doc_title = S ''Hours'',
       doc_category = S ''operations'', doc_content = S ''Open 6:30-6:30''\<rparr>]"
    "getMessages failing_world 7 = Inr []"
    "\<And>entry. createTraceLog failing_world entry = Inr ()"
    by (simp_all add: failing_world_def example_world_def)
  have input_block: "map model
      (trace_logs (fst (processMessage example_world 7 (S ''My SSN is 123-45-6789''))))
      = [S ''guardrail-input'']"
    by code_simp
  have output_block: \<open>map blockReason
      (trace_logs (fst (processMessage unsafe_reply_world 7 (S ''What are your hours?''))))
      = [Some (S ''Response references sensitive information: "diagnosis"'')]\<close>
    by code_simp
  have evaluated: "map guardrailResult
      (trace_logs (fst (processMessage example_world 7 (S ''What are your hours?''))))
      = [Some (S ''passed'')]"
    by code_simp
  have failed: "map guardrailResult
      (trace_logs (fst (processMessage failing_world 7 (S ''What are your hours?''))))
      = [Some (S ''error'')]"
    by code_simp
  from processMessage_persists_one_trace [OF storage, of "S ''My SSN is 123-45-6789''"]
    processMessage_persists_one_trace [OF unsafe, of "S ''What are your hours?''"]
    processMessage_persists_one_trace [OF storage, of "S ''What are your hours?''"]
    processMessage_persists_one_trace [OF failing, of "S ''What are your hours?''"]
    storage(4) input_block output_block evaluated failed
  show ?thesis by blast
qed

text \<open>
  Where the assumption on storage is needed: a storage read that throws ends the run
  before any record is written, and a record that cannot be stored after a completion is
  followed by the record of the catch branch, which reads the clock a third time.
\<close>

lemma storage_read_failure_leaves_no_trace:
  assumes "passed (checkInputGuardrails (String_toLowerCase w) msg)"
    and "getActivePrompts w = Inl err"
  shows "processMessage w cid msg = ([GetActivePrompts], Inl err)"
  using assms
  by (simp add: processMessage_def Let_def buildSystemPrompt_def bind_def call_def)

lemma failed_insert_followed_by_error_record:
  assumes "passed (checkInputGuardrails (String_toLowerCase w) msg)"
    and "getActivePrompts w = Inr ps"
    and "getActiveDocuments w = Inr ds"
    and "getMessages w cid = Inr ms"
    and "chat_completions_create w (completion_request (compose_prompt ps ds)
       (map (\<lambda>m. \<lparr>role = msg_role m, content = msg_content m\<rparr>) ms) msg) = Inr completion"
    and "\<And>entry. createTraceLog w entry = Inl err"
  shows "map responseTimeMs (trace_logs (fst (processMessage w cid msg)))
       = [Some (Date_now w 1 - Date_now w 0), Some (Date_now w 2 - Date_now w 0)]
     \<and> snd (processMessage w cid msg) = Inl err"
proof -
  let ?reply = "or_string (first_content completion) unable_response"
  obtain r where ev: "runEvaluatorAgent w msg ?reply
      = ([EvaluatorCall (evaluator_request msg ?reply)], Inr r)"
    by (rule runEvaluatorAgent_result)
  from assms ev show ?thesis
    by (simp add: processMessage_def Let_def buildSystemPrompt_returns bind_def try_catch_def
          call_def ret_def throw_def clock_reads_def numeral_2_eq_2)
qed









text \<open>
  C10. When the first choice of the completion has no message, no content or the empty
  string as content, \<open>processMessage\<close> and \<open>processEphemeralMessage\<close> take the fixed
  sentence \<^verbatim>\<open>I apologize, but I was unable to generate a response. Please try again.\<close> as
  the reply and run the output check on it; when it passes they return that sentence with
  \<open>reply_blocked\<close> false, and otherwise the safe response. Neither throws.
\<close>

theorem empty_completion_substituted:
  assumes "passed (checkInputGuardrails (String_toLowerCase w) msg)"
    and "getActivePrompts w = Inr ps"
    and "getActiveDocuments w = Inr ds"
    and "getMessages w cid = Inr ms"
    and "\<And>entry. createTraceLog w entry = Inr ()"
    and "chat_completions_create w (completion_request (compose_prompt ps ds)
       (map (\<lambda>m. \<lparr>role = msg_role m, content = msg_content m\<rparr>) ms) msg) = Inr completion"
    and "first_content completion = None \<or> first_content completion = Some []"
    and "chat_completions_create w (completion_request (compose_prompt ps ds) history msg)
       = Inr completion'"
    and "first_content completion' = None \<or> first_content completion' = Some []"
    and "outputCheck = checkOutputGuardrails (String_toLowerCase w)
       (S ''I apologize, but I was unable to generate a response. Please try again.'')"
    and "expected = (if passed outputCheck
       then \<lparr>reply_content = S ''I apologize, but I was unable to generate a response. Please try again.'',
             reply_blocked = False, reply_blockReason = None\<rparr>
       else \<lparr>reply_content = S ''I apologize, but I encountered an issue generating a safe response. Please contact the facility directly for assistance.'',
             reply_blocked = True, reply_blockReason = reason outputCheck\<rparr>)"
  shows "snd (processMessage w cid msg) = Inr expected
     \<and> snd (processEphemeralMessage w msg history) = Inr expected"
proof -
  have subst: "or_string (first_content completion) unable_response = unable_response"
    "or_string (first_content completion') unable_response = unable_response"
    using assms(7,9) by (auto simp: or_string_def)
  have sentences:
    "S ''I apologize, but I was unable to generate a response. Please try again.'' = unable_response"
    "S ''I apologize, but I encountered an issue generating a safe response. Please contact the facility directly for assistance.'' = safeResponse"
    by (simp_all only: unable_response_def safeResponse_def)
  obtain r where ev: "runEvaluatorAgent w msg unable_response
      = ([EvaluatorCall (evaluator_request msg unable_response)], Inr r)"
    by (rule runEvaluatorAgent_result)
  have persistent: "snd (processMessage w cid msg) = Inr expected"
    using assms(1-6,10,11) subst ev unfolding sentences
    by (simp add: processMessage_def Let_def buildSystemPrompt_returns bind_def try_catch_def
          call_def ret_def throw_def clock_reads_def)
  have ephemeral: "snd (processEphemeralMessage w msg history) = Inr expected"
    using assms(1-3,8,10,11) subst unfolding sentences
    by (simp add: processEphemeralMessage_def Let_def buildSystemPrompt_returns bind_def
          try_catch_def call_def ret_def throw_def)
  from persistent ephemeral show ?thesis by simp
qed

theorem empty_completion_witness:
  "passed (checkInputGuardrails (String_toLowerCase empty_reply_world) (S ''What are your hours?''))
   \<and> passed (checkOutputGuardrails (String_toLowerCase empty_reply_world)
        (S ''I apologize, but I was unable to generate a response. Please try again.''))
   \<and> snd (processMessage empty_reply_world 7 (S ''What are your hours?''))
       = Inr \<lparr>reply_content = S ''I apologize, but I was unable to generate a response. Please try again.'',
              reply_blocked = False, reply_blockReason = None\<rparr>
   \<and> snd (processEphemeralMessage empty_reply_world (S ''What are your hours?'') [])
       = Inr \<lparr>reply_content = S ''I apologize, but I was unable to generate a response. Please try again.'',
              reply_blocked = False, reply_blockReason = None\<rparr>"
proof -
  have accepted: "passed (checkInputGuardrails (String_toLowerCase empty_reply_world)
      (S ''What are your hours?''))"
    by code_simp
  have storage: "getActivePrompts empty_reply_world = Inr []"
    "getActiveDocuments empty_reply_world = Inr [\<lparr>doc_title = S ''Hours'',
       doc_category = S ''operations'', doc_content = S ''Open 6:30-6:30''\<rparr>]"
    "getMessages empty_reply_world 7 = Inr []"
    "\<And>entry. createTraceLog empty_reply_world entry = Inr ()"
    by (simp_all add: empty_reply_world_def example_world_def)
  have answer: "chat_completions_create empty_reply_world
      (completion_request (compose_prompt [] [\<lparr>doc_title = S ''Hours'',
         doc_category = S ''operations'', doc_content = S ''Open 6:30-6:30''\<rparr>])
         (map (\<lambda>m. \<lparr>role = msg_role m, content = msg_content m\<rparr>) [])
         (S ''What are your hours?''))
      = Inr (example_completion\<lparr>choices := [\<lparr>choice_message = Some None\<rparr>]\<rparr>)"
    "chat_completions_create empty_reply_world
      (completion_request (compose_prompt [] [\<lparr>doc_title = S ''Hours'',
         doc_category = S ''operations'', doc_content = S ''Open 6:30-6:30''\<rparr>]) []
         (S ''What are your hours?''))
      = Inr (example_completion\<lparr>choices := [\<lparr>choice_message = Some None\<rparr>]\<rparr>)"
    by (simp_all add: empty_reply_world_def completion_request_def)
  have empty: "first_content (example_completion\<lparr>choices := [\<lparr>choice_message = Some None\<rparr>]\<rparr>) = None
      \<or> first_content (example_completion\<lparr>choices := [\<lparr>choice_message = Some None\<rparr>]\<rparr>) = Some []"
    by (simp add: first_content_def)
  have safe: "passed (checkOutputGuardrails (String_toLowerCase empty_reply_world)
      (S ''I apologize, but I was unable to generate a response. Please try again.''))"
    by code_simp
  from empty_completion_substituted [OF accepted storage answer(1) empty answer(2) empty refl refl]
    accepted safe
  show ?thesis by simp
qed

section \<open>The ephemeral turn\<close>

text \<open>
  C8. No run of \<open>processEphemeralMessage\<close> calls \<open>createTraceLog\<close> or the evaluator, on
  any path: its calls are the two reads of the prompt composer and at most the one
  completion call.
\<close>

theorem ephemeral_turn_no_trace_no_evaluator:
  "filter is_createTraceLog (fst (processEphemeralMessage w msg history)) = []
   \<and> filter is_evaluator_call (fst (processEphemeralMessage w msg history)) = []"
proof -
  have "set (fst (processEphemeralMessage w msg history))
      \<subseteq> {GetActivePrompts, GetActiveDocuments}
        \<union> {CompletionCall req | req. True}"
    using buildSystemPrompt_events [of w]
    by (auto simp: processEphemeralMessage_def Let_def bind_def try_catch_def call_def ret_def
          throw_def split: sum.splits if_splits)
  then show ?thesis by (auto simp: filter_empty_conv)
qed

theorem ephemeral_turn_witness:
  "fst (processEphemeralMessage example_world (S ''What are your hours?'') []) \<noteq> []
   \<and> filter is_createTraceLog
        (fst (processEphemeralMessage example_world (S ''What are your hours?'') [])) = []
   \<and> filter is_evaluator_call
        (fst (processEphemeralMessage example_world (S ''What are your hours?'') [])) = []"
proof -
  have "fst (processEphemeralMessage example_world (S ''What are your hours?'') []) \<noteq> []"
    by code_simp
  with ephemeral_turn_no_trace_no_evaluator [of example_world "S ''What are your hours?''" "[]"]
  show ?thesis by blast
qed

end
